theory Spec2Isabelle
  imports Complex_Main
begin

section \<open>The packet buffer of the stream consumer (AgentStream.tsx)\<close>

text \<open>
  \<^verbatim>\<open>const MAX_MESSAGES = 120;\<close>

  The \<^verbatim>\<open>onmessage\<close> handler of the WebSocket appends every parsed packet to the
  \<^verbatim>\<open>messages\<close> state and then cuts the array from the front:
  \<^verbatim>\<open>
  setMessages(prev => {
    const next = [...prev, data];
    if (next.length > MAX_MESSAGES) {
      next.splice(0, next.length - MAX_MESSAGES);
    }
    return next;
  });
  \<close>
  \<^verbatim>\<open>splice(0, k)\<close> removes the first \<open>k\<close> elements, which is \<open>drop k\<close>.
  The packet type is left abstract: the buffer never looks inside a packet.
\<close>

definition MAX_MESSAGES :: nat where
  "MAX_MESSAGES = 120"

definition append_message :: "'p list \<Rightarrow> 'p \<Rightarrow> 'p list" where
  "append_message prev data =
     (let next = prev @ [data]
      in if length next > MAX_MESSAGES
         then drop (length next - MAX_MESSAGES) next
         else next)"

text \<open>
  What \<^verbatim>\<open>JSON.parse(event.data)\<close> gives the handler. A text that is not JSON
  throws inside the \<^verbatim>\<open>try\<close>, before \<^verbatim>\<open>setMessages\<close>. The JSON text
  \<^verbatim>\<open>null\<close> parses, is appended, and then \<^verbatim>\<open>data.type\<close> throws a TypeError.
  Every other value is appended and reading \<^verbatim>\<open>data.type\<close> does not throw.
\<close>

datatype 'p ws_event = Unparsable | ParsedNull 'p | Parsed 'p

text \<open>
  The part of the component state the handler writes that the buffer claims are about:
  the messages and the number of \<^verbatim>\<open>console.warn('Invalid packet', error)\<close> calls.
  The pulse and timestamp display states and the optional \<^verbatim>\<open>onUpdate\<close> callback
  (the dashboard mounts the component without one) do not touch \<^verbatim>\<open>messages\<close>
  and are left out.
\<close>

record 'p stream_state =
  messages :: "'p list"
  warnings :: nat

definition stream_init :: "'p stream_state" where
  "stream_init = \<lparr>messages = [], warnings = 0\<rparr>"

fun onmessage :: "'p stream_state \<Rightarrow> 'p ws_event \<Rightarrow> 'p stream_state" where
  "onmessage st Unparsable = st\<lparr>warnings := Suc (warnings st)\<rparr>"
| "onmessage st (ParsedNull d) =
     st\<lparr>messages := append_message (messages st) d, warnings := Suc (warnings st)\<rparr>"
| "onmessage st (Parsed d) = st\<lparr>messages := append_message (messages st) d\<rparr>"

definition receive_all :: "'p stream_state \<Rightarrow> 'p ws_event list \<Rightarrow> 'p stream_state" where
  "receive_all st evs = foldl onmessage st evs"

section \<open>The rolling series of the signal engine\<close>

text \<open>
  Modelled from the spec: the raw signal generator (\<^verbatim>\<open>api/app/synthetic/engine.py\<close>)
  is not among the source files. The spec says of \<^verbatim>\<open>advance\<close>: it ``appends one new
  point to each rolling series ..., drops the oldest point if the window exceeds its fixed
  length'', and of the sentiment series that it is a ``fixed-length rolling window
  (30 entries)''.
\<close>

definition WINDOW :: nat where
  "WINDOW = 30"

definition advance_series :: "'a list \<Rightarrow> 'a \<Rightarrow> 'a list" where
  "advance_series series point =
     (let appended = series @ [point]
      in if length appended > WINDOW then tl appended else appended)"

section \<open>The data of the dashboard (ExperienceDashboard.tsx)\<close>

text \<open>
  \<^verbatim>\<open>type DataMode = 'simulation' | 'emulation';\<close>
\<close>

datatype DataMode = Simulation | Emulation

text \<open>
  \<^verbatim>\<open>SyntheticOverview\<close>, with the seed and, for every program, its name and its
  athletes with their \<^verbatim>\<open>agent_metrics\<close>. A JSON object is the list of its entries;
  numbers are reals. The scores, raw inputs and feed items of the summaries are display
  data that no function modelled here reads, and are left out.
\<close>

record athlete_summary =
  athlete_id :: string
  athlete_name :: string
  agent_metrics :: "(string \<times> (string \<times> real) list) list"

record program_summary =
  program_name :: string
  athletes :: "athlete_summary list"

record overview =
  seed :: int
  programs :: "program_summary list"

section \<open>The valuation of the signal engine\<close>

text \<open>
  Modelled from the spec: \<^verbatim>\<open>computeValuation(relationshipScore, authenticityScore,
  fairnessIndex, staticBaseline) -> valuationProjection\<close> is ``baseline \<open>\<times>\<close> (1 + weighted
  uplift from the three scores), floored at zero''. The spec pins no weights (``treat the
  specific numeric weights as configuration''), so they are a parameter.
\<close>

record uplift_weights =
  w_relationship :: real
  w_authenticity :: real
  w_fairness :: real

definition weighted_uplift :: "uplift_weights \<Rightarrow> real \<Rightarrow> real \<Rightarrow> real \<Rightarrow> real" where
  "weighted_uplift w relationshipScore authenticityScore fairnessIndex =
     w_relationship w * relationshipScore + w_authenticity w * authenticityScore
       + w_fairness w * fairnessIndex"

definition computeValuation :: "uplift_weights \<Rightarrow> real \<Rightarrow> real \<Rightarrow> real \<Rightarrow> real \<Rightarrow> real" where
  "computeValuation w relationshipScore authenticityScore fairnessIndex staticBaseline =
     max 0 (staticBaseline *
       (1 + weighted_uplift w relationshipScore authenticityScore fairnessIndex))"

section \<open>Loading the data of a mode (ExperienceDashboard.tsx, loadModeData)\<close>

record program =
  program_id :: string
  program_title :: string
  conference :: string
  phase :: string
  nil_baseline :: real
  community_highlights :: "string list"

record scenario =
  scenario_id :: string
  scenario_program_id :: string
  opponent :: string
  win_probability :: real
  nil_uplift :: real
  lineup :: "string list"

record impact_metrics =
  valuation_accuracy :: real
  demographic_parity :: real
  athlete_earnings_lift :: real
  compliance_cost_reduction :: real

text \<open>
  What a \<^verbatim>\<open>fetch\<close> followed by \<^verbatim>\<open>res.json()\<close> can come to: the fetch rejects
  (network error, with its message), the response is not \<^verbatim>\<open>ok\<close>, the body is not
  JSON (\<^verbatim>\<open>res.json()\<close> rejects, with its message), or the body parses to a value.

  A promise is modelled by the time at which it settles and by its outcome, the message of
  the rejection (\<open>Inl\<close>) or the value (\<open>Inr\<close>).
\<close>

datatype 'a fetched = NetworkError string | HttpError | InvalidJson string | Json 'a

type_synonym 'a promise = "nat \<times> (string + 'a)"

text \<open>
  \<^verbatim>\<open>fetch(...).then(res => { if (!res.ok) throw new Error('Programs request failed');
  return res.json(); })\<close>, for the programs, the scenarios and the synthetic overview.
\<close>

definition required :: "string \<Rightarrow> nat \<times> 'a fetched \<Rightarrow> 'a promise" where
  "required what f =
     (case snd f of
        NetworkError message \<Rightarrow> (fst f, Inl message)
      | HttpError \<Rightarrow> (fst f, Inl (what @ '' request failed''))
      | InvalidJson message \<Rightarrow> (fst f, Inl message)
      | Json v \<Rightarrow> (fst f, Inr v))"

text \<open>
  \<^verbatim>\<open>fetch(...).then(res => (res.ok ? res.json() : null)).catch(() => null)\<close>, for the
  metrics: every failure becomes \<^verbatim>\<open>null\<close>.
\<close>

definition optional :: "nat \<times> 'a option fetched \<Rightarrow> 'a option promise" where
  "optional f =
     (case snd f of
        Json v \<Rightarrow> (fst f, Inr v)
      | _ \<Rightarrow> (fst f, Inr None))"

text \<open>\<^verbatim>\<open>Promise.resolve(null)\<close>\<close>

definition resolved_null :: "'a option promise" where
  "resolved_null = (0, Inr None)"

text \<open>
  \<^verbatim>\<open>Promise.all\<close> of two promises, nested for four: it is fulfilled with both values
  once both are, and rejected with the reason of the promise that rejects first (the
  earlier one in the array when the times are equal).
\<close>

fun both :: "'a promise \<Rightarrow> 'b promise \<Rightarrow> ('a \<times> 'b) promise" where
  "both (ta, Inr a) (tb, Inr b) = (max ta tb, Inr (a, b))"
| "both (ta, Inl m) (tb, Inr b) = (ta, Inl m)"
| "both (ta, Inr a) (tb, Inl m) = (tb, Inl m)"
| "both (ta, Inl m) (tb, Inl m') = (if tb < ta then (tb, Inl m') else (ta, Inl m))"

record responses =
  programs_fetch :: "nat \<times> program list fetched"
  scenarios_fetch :: "nat \<times> scenario list fetched"
  metrics_fetch :: "nat \<times> impact_metrics option fetched"
  synthetic_fetch :: "nat \<times> overview option fetched"

record dashboard_state =
  dataMode :: DataMode
  modeLoading :: bool
  modeError :: "string option"
  programData :: "program list"
  scenarioData :: "scenario list"
  metricsData :: "impact_metrics option"
  syntheticOverview :: "overview option"

fun mode_name :: "DataMode \<Rightarrow> string" where
  "mode_name Simulation = ''simulation''"
| "mode_name Emulation = ''emulation''"

text \<open>
  \<^verbatim>\<open>
  const loadModeData = async (mode: DataMode) => {
    setModeLoading(true);
    setModeError(null);
    try {
      ... const [programResponse, scenarioResponse, metricsResponse, syntheticResponse] =
        await Promise.all([programRequest, scenarioRequest, metricsRequest, syntheticRequest]);
      setProgramData(programResponse as Program[]);
      setScenarioData(scenarioResponse as Scenario[]);
      setMetricsData((metricsResponse ?? null) as Metrics | null);
      setSyntheticOverview((syntheticResponse ?? null) as SyntheticOverview | null);
      setDataMode(mode);
    } catch (error) {
      setModeError(`Unable to load ${mode} data: ${(error as Error).message}`);
      if (mode !== dataMode) { setDataMode(mode); }
    } finally {
      setModeLoading(false);
    }
  };
  \<close>
  The state when the call starts is \<open>st\<close> (\<^verbatim>\<open>dataMode\<close> in the \<^verbatim>\<open>catch\<close> is the
  value the closure captured); the result is the state once the call has finished, no
  other call being in flight meanwhile.
\<close>

definition loadModeData :: "dashboard_state \<Rightarrow> DataMode \<Rightarrow> responses \<Rightarrow> dashboard_state" where
  "loadModeData st mode rs =
     (let st1 = st\<lparr>modeLoading := True, modeError := None\<rparr>;
          programRequest = required ''Programs'' (programs_fetch rs);
          scenarioRequest = required ''Scenarios'' (scenarios_fetch rs);
          metricsRequest = optional (metrics_fetch rs);
          syntheticRequest =
            (if mode = Emulation then required ''Synthetic overview'' (synthetic_fetch rs)
             else resolved_null)
      in case snd (both programRequest (both scenarioRequest (both metricsRequest syntheticRequest))) of
           Inr (programResponse, scenarioResponse, metricsResponse, syntheticResponse) \<Rightarrow>
             st1\<lparr>programData := programResponse,
                 scenarioData := scenarioResponse,
                 metricsData := metricsResponse,
                 syntheticOverview := syntheticResponse,
                 dataMode := mode,
                 modeLoading := False\<rparr>
         | Inl message \<Rightarrow>
             st1\<lparr>modeError := Some (''Unable to load '' @ mode_name mode @ '' data: '' @ message),
                 dataMode := (if mode \<noteq> dataMode st then mode else dataMode st),
                 modeLoading := False\<rparr>)"

text \<open>
  \<^verbatim>\<open>
  const handleModeSwitch = (mode: DataMode) => {
    if (mode === dataMode && !modeError) { return; }
    loadModeData(mode);
  };
  \<close>
  An empty message is falsy as \<^verbatim>\<open>null\<close> is.
\<close>

definition handleModeSwitch :: "dashboard_state \<Rightarrow> DataMode \<Rightarrow> responses \<Rightarrow> dashboard_state" where
  "handleModeSwitch st mode rs =
     (if mode = dataMode st \<and> (modeError st = None \<or> modeError st = Some [])
      then st else loadModeData st mode rs)"

text \<open>A required request of the call fails.\<close>

definition required_fails :: "DataMode \<Rightarrow> responses \<Rightarrow> bool" where
  "required_fails mode rs =
     (isl (snd (required ''Programs'' (programs_fetch rs)))
      \<or> isl (snd (required ''Scenarios'' (scenarios_fetch rs)))
      \<or> (mode = Emulation \<and> isl (snd (required ''Synthetic overview'' (synthetic_fetch rs)))))"

section \<open>Selecting a program on the simulation page (selectProgram)\<close>

text \<open>
  The data \<^verbatim>\<open>loadSimulationData\<close> returns, with the fields the selection reads. The
  fields that only feed the rendered text (labels, narratives, numbers) are left out,
  and so are \<^verbatim>\<open>leadership\<close> and \<^verbatim>\<open>revenue\<close>, which the selection does not read.
\<close>

record bg_program =
  bg_program_id :: string
  bg_program_name :: string

record bg_athlete =
  bg_athlete_id :: string
  bg_athlete_programId :: string
  bg_athlete_name :: string
  behaviorId :: string

record bg_behavior =
  behavior_id :: string

record bg_compliance =
  compliance_athleteId :: string
  riskLevel :: string

record bg_packet =
  packet_programId :: string

record bg_scenario =
  bg_scenario_programId :: string
  bg_opponent :: string

record simulation_data =
  data_programs :: "bg_program list"
  data_athletes :: "bg_athlete list"
  data_behaviors :: "bg_behavior list"
  data_compliance :: "bg_compliance list"
  data_agents :: "bg_packet list"
  data_scenarios :: "bg_scenario list"

text \<open>
  An element of the page the script renders into: \<^verbatim>\<open>document.querySelector\<close> finds
  none (\<open>Absent\<close>), or the element still has its static content (\<open>Untouched\<close>), or its
  \<^verbatim>\<open>innerHTML\<close> was rendered from a value (\<open>Shows\<close>) or set to the empty string
  (\<open>Cleared\<close>). The text rendered is not modelled. The templates dereference fields of
  the data without a guard (\<^verbatim>\<open>program.fanReach.composite\<close>,
  \<^verbatim>\<open>program.communityHighlights.join\<close>, \<^verbatim>\<open>athlete.spotlights.map\<close>,
  \<^verbatim>\<open>behavior.notes.join\<close>, \<^verbatim>\<open>complianceItem.ruleUpdates.map\<close>,
  \<^verbatim>\<open>packet.evidence.map\<close>, \<^verbatim>\<open>scenario.lineup.map\<close>, ...) and throw a TypeError
  where one is missing; the records below stand for data that has the fields the templates
  read, so these throws are outside the model.

  The buttons of the constellation (\<^verbatim>\<open>.constellation__item\<close>) and the revenue cards
  (\<^verbatim>\<open>.revenue-card\<close>) are lists of the elements that exist, each with its
  \<^verbatim>\<open>data-program\<close> attribute and whether it carries the class \<^verbatim>\<open>is-active\<close>.
\<close>

datatype 'a element = Absent | Untouched | Shows 'a | Cleared

record page =
  detail_el :: "bg_program element"
  card_el :: "bg_athlete element"
  rings_el :: "bg_behavior element"
  compliance_el :: "bg_compliance element"
  arena_el :: "bg_packet element"
  transcript_el :: "bg_packet element"
  court_el :: "bg_scenario element"
  controls_el :: "bg_scenario element"
  wave_el :: "bg_scenario element"
  constellation_items :: "(string \<times> bool) list"
  revenue_cards :: "(string \<times> bool) list"

text \<open>
  \<^verbatim>\<open>let state = { data: null, selectedProgram: null, selectedAthlete: null,
  selectedScenario: null };\<close> together with the page.
\<close>

record app =
  data :: "simulation_data option"
  selectedProgram :: "bg_program option"
  selectedAthlete :: "bg_athlete option"
  selectedScenario :: "bg_scenario option"
  rendered :: page

datatype js_error = TypeError

text \<open>\<^verbatim>\<open>if (!detail) return; detail.innerHTML = ...program...\<close>\<close>

definition updateProgramDetail :: "bg_program \<Rightarrow> page \<Rightarrow> page" where
  "updateProgramDetail program pg =
     (if detail_el pg = Absent then pg else pg\<lparr>detail_el := Shows program\<rparr>)"

text \<open>
  \<^verbatim>\<open>
  if (!card || !rings || !compliance) return;
  const behavior = state.data.behaviors.find(b => b.id === athlete.behaviorId);
  const complianceItem = state.data.compliance.find(c => c.athleteId === athlete.id);
  card.innerHTML = ...;
  if (behavior) { rings.innerHTML = ...; }
  if (complianceItem) { compliance.innerHTML = ...; }
  \<close>
\<close>

definition updateAthleteView :: "simulation_data \<Rightarrow> bg_athlete \<Rightarrow> page \<Rightarrow> page" where
  "updateAthleteView d athlete pg =
     (if card_el pg = Absent \<or> rings_el pg = Absent \<or> compliance_el pg = Absent then pg
      else
        let behavior = find (\<lambda>b. behavior_id b = behaviorId athlete) (data_behaviors d);
            complianceItem =
              find (\<lambda>c. compliance_athleteId c = bg_athlete_id athlete) (data_compliance d);
            pg1 = pg\<lparr>card_el := Shows athlete\<rparr>;
            pg2 = (case behavior of Some b \<Rightarrow> pg1\<lparr>rings_el := Shows b\<rparr> | None \<Rightarrow> pg1)
        in case complianceItem of Some c \<Rightarrow> pg2\<lparr>compliance_el := Shows c\<rparr> | None \<Rightarrow> pg2)"

text \<open>\<^verbatim>\<open>if (!court || !controls || !wave) return;\<close> and three assignments.\<close>

definition updateScenario :: "bg_scenario \<Rightarrow> page \<Rightarrow> page" where
  "updateScenario scenario pg =
     (if court_el pg = Absent \<or> controls_el pg = Absent \<or> wave_el pg = Absent then pg
      else pg\<lparr>court_el := Shows scenario, controls_el := Shows scenario,
              wave_el := Shows scenario\<rparr>)"

text \<open>
  \<^verbatim>\<open>
  if (!arena || !transcript) return;
  const packet = state.data.agents.find(set => set.programId === programId);
  if (!packet) { arena.innerHTML = ''; transcript.innerHTML = ''; return; }
  arena.innerHTML = ...; transcript.innerHTML = ...;
  \<close>
\<close>

definition updateAgents :: "simulation_data \<Rightarrow> string \<Rightarrow> page \<Rightarrow> page" where
  "updateAgents d programId pg =
     (if arena_el pg = Absent \<or> transcript_el pg = Absent then pg
      else
        case find (\<lambda>p. packet_programId p = programId) (data_agents d) of
          None \<Rightarrow> pg\<lparr>arena_el := Cleared, transcript_el := Cleared\<rparr>
        | Some packet \<Rightarrow> pg\<lparr>arena_el := Shows packet, transcript_el := Shows packet\<rparr>)"

text \<open>
  \<^verbatim>\<open>
  const items = document.querySelectorAll('.constellation__item');
  items.forEach(item => {
    if (item.getAttribute('data-program') === programId) { item.classList.add('is-active'); }
    else { item.classList.remove('is-active'); }
  });
  \<close>
  and the same over \<^verbatim>\<open>.revenue-card\<close> in \<^verbatim>\<open>updateRevenueFocus\<close>: only elements
  that exist are marked.
\<close>

definition highlightProgram :: "string \<Rightarrow> page \<Rightarrow> page" where
  "highlightProgram programId pg =
     pg\<lparr>constellation_items :=
          map (\<lambda>(program, active). (program, program = programId)) (constellation_items pg)\<rparr>"

definition updateRevenueFocus :: "string \<Rightarrow> page \<Rightarrow> page" where
  "updateRevenueFocus programId pg =
     pg\<lparr>revenue_cards :=
          map (\<lambda>(program, active). (program, program = programId)) (revenue_cards pg)\<rparr>"

text \<open>
  The lookup of the roster, \<^verbatim>\<open>state.data.programs.find(p => p.id === programId)\<close>:
  \<open>None\<close> is JavaScript's \<^verbatim>\<open>undefined\<close>.
\<close>

definition lookup_program :: "string \<Rightarrow> simulation_data \<Rightarrow> bg_program option" where
  "lookup_program programId d = find (\<lambda>p. bg_program_id p = programId) (data_programs d)"

text \<open>
  \<^verbatim>\<open>
  function selectProgram(programId) {
    const program = state.data.programs.find(p => p.id === programId);
    if (!program) return;
    state.selectedProgram = program;
    updateProgramDetail(program);
    const athletes = state.data.athletes.filter(a => a.programId === program.id);
    const athlete = athletes[0] || null;
    if (athlete) { state.selectedAthlete = athlete; updateAthleteView(athlete); }
    const scenario = state.data.scenarios.find(s => s.programId === program.id);
    if (scenario) { state.selectedScenario = scenario; updateScenario(scenario); }
    highlightProgram(program.id);
    updateAgents(program.id);
    updateRevenueFocus(program.id);
  }
  \<close>
  The function returns no value; the model returns the state it leaves (\<open>Inr\<close>), or the
  TypeError of reading \<^verbatim>\<open>state.data.programs\<close> while \<^verbatim>\<open>state.data\<close> is
  \<^verbatim>\<open>null\<close> (\<open>Inl\<close>).
\<close>

definition selectProgram :: "string \<Rightarrow> app \<Rightarrow> js_error + app" where
  "selectProgram programId st =
     (case data st of
        None \<Rightarrow> Inl TypeError
      | Some d \<Rightarrow>
          (case lookup_program programId d of
             None \<Rightarrow> Inr st
           | Some program \<Rightarrow>
               (let st1 = st\<lparr>selectedProgram := Some program,
                             rendered := updateProgramDetail program (rendered st)\<rparr>;
                    athletes =
                      filter (\<lambda>a. bg_athlete_programId a = bg_program_id program) (data_athletes d);
                    st2 = (case athletes of
                             [] \<Rightarrow> st1
                           | athlete # rest \<Rightarrow>
                               st1\<lparr>selectedAthlete := Some athlete,
                                   rendered := updateAthleteView d athlete (rendered st1)\<rparr>);
                    st3 = (case find (\<lambda>s. bg_scenario_programId s = bg_program_id program)
                                  (data_scenarios d) of
                             None \<Rightarrow> st2
                           | Some scenario \<Rightarrow>
                               st2\<lparr>selectedScenario := Some scenario,
                                   rendered := updateScenario scenario (rendered st2)\<rparr>)
                in Inr (st3\<lparr>rendered :=
                          updateRevenueFocus (bg_program_id program)
                            (updateAgents d (bg_program_id program)
                              (highlightProgram (bg_program_id program) (rendered st3)))\<rparr>))))"

section \<open>Concrete inputs\<close>

text \<open>
  An overview with the documented seed 4242, one program and two athletes, each with
  metrics of the social media agent.
\<close>

definition example_overview :: overview where
  "example_overview =
     \<lparr>seed = 4242,
      programs =
        [\<lparr>program_name = ''Auburn'',
          athletes =
            [\<lparr>athlete_id = ''guard_playmaker'', athlete_name = ''Jalen Carter'',
              agent_metrics = [(''social_media'', [(''engagement_authenticity'', 0.5)])]\<rparr>,
             \<lparr>athlete_id = ''forward_wing'', athlete_name = ''Marcus Hill'',
              agent_metrics = [(''social_media'', [(''engagement_authenticity'', 0.98)])]\<rparr>]\<rparr>]\<rparr>"

text \<open>The states and responses of a mode switch from simulation to emulation.\<close>

definition mock_programs :: "program list" where
  "mock_programs =
     [\<lparr>program_id = ''auburn_mbb'', program_title = ''Auburn'', conference = ''SEC'',
       phase = ''POC'', nil_baseline = 4200000, community_highlights = []\<rparr>]"

definition synthetic_programs :: "program list" where
  "synthetic_programs =
     [\<lparr>program_id = ''auburn_mbb'', program_title = ''Auburn'', conference = ''SEC'',
       phase = ''POC'', nil_baseline = 4410000, community_highlights = []\<rparr>]"

definition simulation_state :: dashboard_state where
  "simulation_state =
     \<lparr>dataMode = Simulation, modeLoading = False, modeError = None,
      programData = mock_programs, scenarioData = [], metricsData = None,
      syntheticOverview = None\<rparr>"

definition scenarios_down :: responses where
  "scenarios_down =
     \<lparr>programs_fetch = (1, Json synthetic_programs),
      scenarios_fetch = (2, HttpError),
      metrics_fetch = (3, Json None),
      synthetic_fetch = (4, Json (Some example_overview))\<rparr>"

text \<open>
  The data of the simulation page: two programs, the second without athletes and without
  a scenario, and the page once it was rendered with the first program selected.
\<close>

definition example_data :: simulation_data where
  "example_data =
     \<lparr>data_programs =
        [\<lparr>bg_program_id = ''auburn_mbb'', bg_program_name = ''Auburn''\<rparr>,
         \<lparr>bg_program_id = ''sac_state_mbb'', bg_program_name = ''Sacramento State''\<rparr>],
      data_athletes =
        [\<lparr>bg_athlete_id = ''guard_playmaker'', bg_athlete_programId = ''auburn_mbb'',
          bg_athlete_name = ''Jalen Carter'', behaviorId = ''guard_playmaker_behavioral''\<rparr>],
      data_behaviors = [\<lparr>behavior_id = ''guard_playmaker_behavioral''\<rparr>],
      data_compliance = [\<lparr>compliance_athleteId = ''guard_playmaker'', riskLevel = ''Low''\<rparr>],
      data_agents = [\<lparr>packet_programId = ''auburn_mbb''\<rparr>],
      data_scenarios =
        [\<lparr>bg_scenario_programId = ''auburn_mbb'', bg_opponent = ''Rival University''\<rparr>]\<rparr>"

definition auburn_selected :: app where
  "auburn_selected =
     \<lparr>data = Some example_data,
      selectedProgram = Some \<lparr>bg_program_id = ''auburn_mbb'', bg_program_name = ''Auburn''\<rparr>,
      selectedAthlete =
        Some \<lparr>bg_athlete_id = ''guard_playmaker'', bg_athlete_programId = ''auburn_mbb'',
          bg_athlete_name = ''Jalen Carter'', behaviorId = ''guard_playmaker_behavioral''\<rparr>,
      selectedScenario =
        Some \<lparr>bg_scenario_programId = ''auburn_mbb'', bg_opponent = ''Rival University''\<rparr>,
      rendered =
        \<lparr>detail_el = Shows \<lparr>bg_program_id = ''auburn_mbb'', bg_program_name = ''Auburn''\<rparr>,
         card_el =
           Shows \<lparr>bg_athlete_id = ''guard_playmaker'', bg_athlete_programId = ''auburn_mbb'',
             bg_athlete_name = ''Jalen Carter'', behaviorId = ''guard_playmaker_behavioral''\<rparr>,
         rings_el = Shows \<lparr>behavior_id = ''guard_playmaker_behavioral''\<rparr>,
         compliance_el = Shows \<lparr>compliance_athleteId = ''guard_playmaker'', riskLevel = ''Low''\<rparr>,
         arena_el = Shows \<lparr>packet_programId = ''auburn_mbb''\<rparr>,
         transcript_el = Shows \<lparr>packet_programId = ''auburn_mbb''\<rparr>,
         court_el =
           Shows \<lparr>bg_scenario_programId = ''auburn_mbb'', bg_opponent = ''Rival University''\<rparr>,
         controls_el =
           Shows \<lparr>bg_scenario_programId = ''auburn_mbb'', bg_opponent = ''Rival University''\<rparr>,
         wave_el =
           Shows \<lparr>bg_scenario_programId = ''auburn_mbb'', bg_opponent = ''Rival University''\<rparr>,
         constellation_items = [(''auburn_mbb'', True), (''sac_state_mbb'', False)],
         revenue_cards = [(''auburn_mbb'', False), (''sac_state_mbb'', False)]\<rparr>\<rparr>"

section \<open>Properties of the buffers\<close>

lemma length_drop_excess: "length (drop (length xs - n) xs) \<le> n"
  by (cases "n \<le> length xs") simp_all

lemma length_append_message: "length (append_message prev d) \<le> MAX_MESSAGES"
proof (cases "length (prev @ [d]) > MAX_MESSAGES")
  case True
  then have "append_message prev d = drop (length (prev @ [d]) - MAX_MESSAGES) (prev @ [d])"
    by (simp add: append_message_def Let_def)
  then show ?thesis
    using length_drop_excess [of "prev @ [d]" MAX_MESSAGES] by simp
next
  case False
  then show ?thesis
    by (simp add: append_message_def Let_def)
qed

lemma length_onmessage:
  "length (messages st) \<le> MAX_MESSAGES \<Longrightarrow> length (messages (onmessage st ev)) \<le> MAX_MESSAGES"
  by (cases ev) (simp_all add: length_append_message)

lemma length_receive_all:
  "length (messages st) \<le> MAX_MESSAGES \<Longrightarrow>
   length (messages (receive_all st evs)) \<le> MAX_MESSAGES"
  unfolding receive_all_def
proof (induction evs arbitrary: st)
  case Nil
  then show ?case by simp
next
  case (Cons ev evs)
  from Cons.prems have "length (messages (onmessage st ev)) \<le> MAX_MESSAGES"
    by (rule length_onmessage)
  then show ?case using Cons.IH by simp
qed

lemma append_message_below:
  "length prev < MAX_MESSAGES \<Longrightarrow> append_message prev d = prev @ [d]"
  by (simp add: append_message_def Let_def)

lemma append_message_full:
  "length prev = MAX_MESSAGES \<Longrightarrow> append_message prev d = tl prev @ [d]"
  by (cases prev) (simp_all add: append_message_def Let_def MAX_MESSAGES_def)

lemma length_advance_series:
  "length series \<le> WINDOW \<Longrightarrow> length (advance_series series p) \<le> WINDOW"
  by (simp add: advance_series_def Let_def)

lemma advance_series_full:
  "length series = WINDOW \<Longrightarrow> advance_series series p = tl series @ [p]"
  by (cases series) (simp_all add: advance_series_def Let_def WINDOW_def)

text \<open>
  Claim C3 (window invariant). However many packets arrive, the stream consumer's
  \<^verbatim>\<open>messages\<close> buffer never holds more than \<^verbatim>\<open>MAX_MESSAGES\<close> entries; below
  capacity an append only adds the packet at the end, and at capacity the entry dropped
  is the oldest one (the head), the rest keeping their order. The same holds of a rolling
  series of the engine with its window of 30, as the spec describes \<^verbatim>\<open>advance\<close>.
\<close>

theorem window_invariant:
  "length (messages (receive_all stream_init evs)) \<le> MAX_MESSAGES
   \<and> length (append_message prev d) \<le> MAX_MESSAGES
   \<and> (length prev < MAX_MESSAGES \<longrightarrow> append_message prev d = prev @ [d])
   \<and> (length prev = MAX_MESSAGES \<longrightarrow> append_message prev d = tl prev @ [d])
   \<and> (length series \<le> WINDOW \<longrightarrow> length (advance_series series p) \<le> WINDOW)
   \<and> (length series = WINDOW \<longrightarrow> advance_series series p = tl series @ [p])"
proof -
  have "length (messages (stream_init :: 'a stream_state)) \<le> MAX_MESSAGES"
    by (simp add: stream_init_def)
  then have "length (messages (receive_all stream_init evs)) \<le> MAX_MESSAGES"
    by (rule length_receive_all)
  then show ?thesis
    using length_append_message [of prev d] append_message_below [of prev d]
      append_message_full [of prev d] length_advance_series [of series p]
      advance_series_full [of series p]
    by simp
qed

theorem window_invariant_witness:
  "length (messages (receive_all stream_init (map Parsed [1 ..< 124 :: nat]))) \<le> MAX_MESSAGES
   \<and> length (replicate 120 (0::nat)) = MAX_MESSAGES
   \<and> append_message (replicate 120 (0::nat)) 7 = replicate 119 0 @ [7]
   \<and> length (replicate 30 (0::nat)) = WINDOW
   \<and> advance_series (replicate 30 (0::nat)) 7 = replicate 29 0 @ [7]
   \<and> length (advance_series (replicate 30 (0::nat)) 7) \<le> WINDOW"
proof -
  have a: "length (replicate 120 (0::nat)) = MAX_MESSAGES"
    by (simp add: MAX_MESSAGES_def)
  have b: "length (replicate 30 (0::nat)) = WINDOW"
    by (simp add: WINDOW_def)
  have c: "tl (replicate 120 (0::nat)) = replicate 119 0"
    by (simp add: tl_replicate)
  have d: "tl (replicate 30 (0::nat)) = replicate 29 0"
    by (simp add: tl_replicate)
  show ?thesis
    using window_invariant [of "map Parsed [1 ..< 124 :: nat]" "replicate 120 (0::nat)" 7
        "replicate 30 (0::nat)" 7] a b c d
    by simp
qed

section \<open>Properties of loading a mode\<close>

lemma both_isl: "isl (snd (both p q)) \<longleftrightarrow> isl (snd p) \<or> isl (snd q)"
  by (cases "(p, q)" rule: both.cases) (auto split: if_splits)

lemma loadModeData_rejected:
  assumes "required_fails mode rs"
  shows "\<exists>message.
     loadModeData st mode rs =
       st\<lparr>modeError := Some (''Unable to load '' @ mode_name mode @ '' data: '' @ message),
          dataMode := mode, modeLoading := False\<rparr>"
proof -
  let ?all = "both (required ''Programs'' (programs_fetch rs))
     (both (required ''Scenarios'' (scenarios_fetch rs))
        (both (optional (metrics_fetch rs))
           (if mode = Emulation then required ''Synthetic overview'' (synthetic_fetch rs)
            else resolved_null)))"
  from assms have "isl (snd ?all)"
    by (auto simp: required_fails_def both_isl)
  then obtain message where "snd ?all = Inl message"
    by (cases "snd ?all") simp_all
  then have "loadModeData st mode rs =
       st\<lparr>modeError := Some (''Unable to load '' @ mode_name mode @ '' data: '' @ message),
          dataMode := mode, modeLoading := False\<rparr>"
    by (simp add: loadModeData_def Let_def)
  then show ?thesis ..
qed

lemma handleModeSwitch_retries:
  assumes "required_fails mode rs"
  shows "handleModeSwitch (loadModeData st mode rs) mode rs'
     = loadModeData (loadModeData st mode rs) mode rs'"
proof -
  from assms obtain message where
    "loadModeData st mode rs =
       st\<lparr>modeError := Some (''Unable to load '' @ mode_name mode @ '' data: '' @ message),
          dataMode := mode, modeLoading := False\<rparr>"
    using loadModeData_rejected by blast
  then show ?thesis
    by (simp add: handleModeSwitch_def)
qed

lemma scenarios_down_fails: "required_fails Emulation scenarios_down"
  by (simp add: required_fails_def scenarios_down_def required_def)

text \<open>
  Claim C9 (the mode switch is not atomic on failure). Whenever a required request of
  \<^verbatim>\<open>loadModeData(mode)\<close> fails (programs, scenarios, or in emulation mode the
  synthetic overview), the call ends with \<^verbatim>\<open>dataMode\<close> set to the requested mode,
  while \<^verbatim>\<open>programData\<close>, \<^verbatim>\<open>scenarioData\<close>, \<^verbatim>\<open>metricsData\<close> and
  \<^verbatim>\<open>syntheticOverview\<close> keep the values they had; the error is recorded in
  \<^verbatim>\<open>modeError\<close> and the loading flag is cleared.
\<close>

theorem mode_switch_not_atomic:
  assumes "required_fails mode rs"
  shows "dataMode (loadModeData st mode rs) = mode
     \<and> programData (loadModeData st mode rs) = programData st
     \<and> scenarioData (loadModeData st mode rs) = scenarioData st
     \<and> metricsData (loadModeData st mode rs) = metricsData st
     \<and> syntheticOverview (loadModeData st mode rs) = syntheticOverview st
     \<and> modeError (loadModeData st mode rs) \<noteq> None
     \<and> \<not> modeLoading (loadModeData st mode rs)"
proof -
  from assms obtain message where
    "loadModeData st mode rs =
       st\<lparr>modeError := Some (''Unable to load '' @ mode_name mode @ '' data: '' @ message),
          dataMode := mode, modeLoading := False\<rparr>"
    using loadModeData_rejected by blast
  then show ?thesis by simp
qed

text \<open>
  The theorem at a switch from simulation to emulation whose scenarios request fails: the
  mode shown becomes emulation while the programs are still the mock ones and no overview
  is loaded.
\<close>

theorem mode_switch_not_atomic_witness:
  "required_fails Emulation scenarios_down
   \<and> dataMode simulation_state = Simulation
   \<and> dataMode (loadModeData simulation_state Emulation scenarios_down) = Emulation
   \<and> programData (loadModeData simulation_state Emulation scenarios_down) = mock_programs
   \<and> syntheticOverview (loadModeData simulation_state Emulation scenarios_down) = None
   \<and> modeError (loadModeData simulation_state Emulation scenarios_down) \<noteq> None"
  using mode_switch_not_atomic [OF scenarios_down_fails, of simulation_state] scenarios_down_fails
  by (simp add: simulation_state_def)

section \<open>Properties of the program selection\<close>

lemma lookup_program_Some:
  "lookup_program programId d = Some p \<Longrightarrow> bg_program_id p = programId \<and> p \<in> set (data_programs d)"
  by (auto simp: lookup_program_def find_Some_iff)

lemma selectProgram_known:
  assumes "data st = Some d" and "lookup_program programId d = Some p"
  shows "\<exists>st'. selectProgram programId st = Inr st' \<and> selectedProgram st' = Some p
    \<and> data st' = Some d"
  using assms
  by (simp add: selectProgram_def Let_def split: list.splits option.splits)

lemma frame_athlete_views:
  "card_el (updateRevenueFocus i (updateAgents d j (highlightProgram k pg))) = card_el pg
   \<and> rings_el (updateRevenueFocus i (updateAgents d j (highlightProgram k pg))) = rings_el pg
   \<and> compliance_el (updateRevenueFocus i (updateAgents d j (highlightProgram k pg))) = compliance_el pg
   \<and> court_el (updateRevenueFocus i (updateAgents d j (highlightProgram k pg))) = court_el pg
   \<and> controls_el (updateRevenueFocus i (updateAgents d j (highlightProgram k pg))) = controls_el pg
   \<and> wave_el (updateRevenueFocus i (updateAgents d j (highlightProgram k pg))) = wave_el pg"
  by (simp add: updateRevenueFocus_def updateAgents_def highlightProgram_def split: option.splits)

lemma frame_detail:
  "card_el (updateProgramDetail p pg) = card_el pg
   \<and> rings_el (updateProgramDetail p pg) = rings_el pg
   \<and> compliance_el (updateProgramDetail p pg) = compliance_el pg
   \<and> court_el (updateProgramDetail p pg) = court_el pg
   \<and> controls_el (updateProgramDetail p pg) = controls_el pg
   \<and> wave_el (updateProgramDetail p pg) = wave_el pg"
  by (simp add: updateProgramDetail_def)

lemma frame_scenario:
  "card_el (updateScenario s pg) = card_el pg
   \<and> rings_el (updateScenario s pg) = rings_el pg
   \<and> compliance_el (updateScenario s pg) = compliance_el pg"
  by (simp add: updateScenario_def)

lemma frame_athlete:
  "court_el (updateAthleteView d a pg) = court_el pg
   \<and> controls_el (updateAthleteView d a pg) = controls_el pg
   \<and> wave_el (updateAthleteView d a pg) = wave_el pg"
  by (simp add: updateAthleteView_def Let_def split: option.splits)

lemma selectProgram_no_athlete:
  assumes "data st = Some d" and "lookup_program programId d = Some p"
    and "\<forall>a \<in> set (data_athletes d). bg_athlete_programId a \<noteq> programId"
    and "selectProgram programId st = Inr st'"
  shows "selectedAthlete st' = selectedAthlete st
    \<and> card_el (rendered st') = card_el (rendered st)
    \<and> rings_el (rendered st') = rings_el (rendered st)
    \<and> compliance_el (rendered st') = compliance_el (rendered st)"
proof -
  from assms(2) have "bg_program_id p = programId"
    by (simp add: lookup_program_Some)
  with assms(3) have "filter (\<lambda>a. bg_athlete_programId a = bg_program_id p) (data_athletes d) = []"
    by (simp add: filter_empty_conv)
  with assms(1,2,4) show ?thesis
    by (auto simp: selectProgram_def Let_def frame_athlete_views frame_detail frame_scenario
        split: option.splits)
qed

lemma selectProgram_no_scenario:
  assumes "data st = Some d" and "lookup_program programId d = Some p"
    and "\<forall>s \<in> set (data_scenarios d). bg_scenario_programId s \<noteq> programId"
    and "selectProgram programId st = Inr st'"
  shows "selectedScenario st' = selectedScenario st
    \<and> court_el (rendered st') = court_el (rendered st)
    \<and> controls_el (rendered st') = controls_el (rendered st)
    \<and> wave_el (rendered st') = wave_el (rendered st)"
proof -
  from assms(2) have "bg_program_id p = programId"
    by (simp add: lookup_program_Some)
  with assms(3) have "find (\<lambda>s. bg_scenario_programId s = bg_program_id p) (data_scenarios d) = None"
    by (simp add: find_None_iff)
  with assms(1,2,4) show ?thesis
    by (auto simp: selectProgram_def Let_def frame_athlete_views frame_detail frame_athlete
        split: list.splits)
qed

lemma sac_state_lookup:
  "lookup_program ''sac_state_mbb'' example_data
     = Some \<lparr>bg_program_id = ''sac_state_mbb'', bg_program_name = ''Sacramento State''\<rparr>"
  by (simp add: lookup_program_def example_data_def)

lemma sac_state_no_athlete:
  "\<forall>a \<in> set (data_athletes example_data). bg_athlete_programId a \<noteq> ''sac_state_mbb''"
  by (simp add: example_data_def)

lemma sac_state_no_scenario:
  "\<forall>s \<in> set (data_scenarios example_data). bg_scenario_programId s \<noteq> ''sac_state_mbb''"
  by (simp add: example_data_def)

lemma auburn_selected_data: "data auburn_selected = Some example_data"
  by (simp add: auburn_selected_def)

text \<open>
  Claim C10 (stale selection across entities). For every \<^verbatim>\<open>selectProgram(programId)\<close>
  whose id is in the roster, the call sets \<^verbatim>\<open>state.selectedProgram\<close> to the program
  found. If no athlete has this \<^verbatim>\<open>programId\<close>, \<^verbatim>\<open>state.selectedAthlete\<close> and
  the three athlete panels (card, rings, compliance) are left as they were; if no scenario
  has it, \<^verbatim>\<open>state.selectedScenario\<close> and the three scenario panels (court, controls,
  wave) are left as they were.
\<close>

theorem stale_selection:
  assumes "data st = Some d" and "lookup_program programId d = Some p"
  shows "\<exists>st'. selectProgram programId st = Inr st' \<and> selectedProgram st' = Some p
    \<and> ((\<forall>a \<in> set (data_athletes d). bg_athlete_programId a \<noteq> programId) \<longrightarrow>
          selectedAthlete st' = selectedAthlete st
          \<and> card_el (rendered st') = card_el (rendered st)
          \<and> rings_el (rendered st') = rings_el (rendered st)
          \<and> compliance_el (rendered st') = compliance_el (rendered st))
    \<and> ((\<forall>s \<in> set (data_scenarios d). bg_scenario_programId s \<noteq> programId) \<longrightarrow>
          selectedScenario st' = selectedScenario st
          \<and> court_el (rendered st') = court_el (rendered st)
          \<and> controls_el (rendered st') = controls_el (rendered st)
          \<and> wave_el (rendered st') = wave_el (rendered st))"
proof -
  from assms obtain st' where st': "selectProgram programId st = Inr st'"
    and sel: "selectedProgram st' = Some p"
    using selectProgram_known by blast
  show ?thesis
    using st' sel selectProgram_no_athlete [OF assms _ st']
      selectProgram_no_scenario [OF assms _ st']
    by blast
qed

text \<open>
  The theorem at the page with the first program selected, selecting the second program,
  which has no athlete and no scenario: the program selected becomes Sacramento State
  while the athlete and the scenario selected and shown stay those of Auburn.
\<close>

theorem stale_selection_witness:
  "\<exists>st'. selectProgram ''sac_state_mbb'' auburn_selected = Inr st'
     \<and> selectedProgram st'
         = Some \<lparr>bg_program_id = ''sac_state_mbb'', bg_program_name = ''Sacramento State''\<rparr>
     \<and> selectedAthlete st'
         = Some \<lparr>bg_athlete_id = ''guard_playmaker'', bg_athlete_programId = ''auburn_mbb'',
             bg_athlete_name = ''Jalen Carter'', behaviorId = ''guard_playmaker_behavioral''\<rparr>
     \<and> card_el (rendered st')
         = Shows \<lparr>bg_athlete_id = ''guard_playmaker'', bg_athlete_programId = ''auburn_mbb'',
             bg_athlete_name = ''Jalen Carter'', behaviorId = ''guard_playmaker_behavioral''\<rparr>
     \<and> selectedScenario st'
         = Some \<lparr>bg_scenario_programId = ''auburn_mbb'', bg_opponent = ''Rival University''\<rparr>
     \<and> court_el (rendered st')
         = Shows \<lparr>bg_scenario_programId = ''auburn_mbb'', bg_opponent = ''Rival University''\<rparr>"
proof -
  from stale_selection [OF auburn_selected_data sac_state_lookup]
    sac_state_no_athlete sac_state_no_scenario
  obtain st' where "selectProgram ''sac_state_mbb'' auburn_selected = Inr st'"
    and "selectedProgram st'
         = Some \<lparr>bg_program_id = ''sac_state_mbb'', bg_program_name = ''Sacramento State''\<rparr>"
    and "selectedAthlete st' = selectedAthlete auburn_selected"
    and "card_el (rendered st') = card_el (rendered auburn_selected)"
    and "selectedScenario st' = selectedScenario auburn_selected"
    and "court_el (rendered st') = court_el (rendered auburn_selected)"
    by blast
  then show ?thesis
    by (simp add: auburn_selected_def)
qed

section \<open>The valuation formula\<close>

text \<open>
  Claim C6 (valuation formula). \<^verbatim>\<open>computeValuation\<close> is the static baseline times one
  plus the weighted sum of the three scores, floored at zero: the result is never
  negative, it is the product itself where the product is not negative, and zero where the
  product is not positive.
\<close>

theorem valuation_formula:
  "computeValuation w r a f base
     = max 0 (base * (1 + (w_relationship w * r + w_authenticity w * a + w_fairness w * f)))
   \<and> 0 \<le> computeValuation w r a f base
   \<and> (0 \<le> base * (1 + weighted_uplift w r a f) \<longrightarrow>
        computeValuation w r a f base = base * (1 + weighted_uplift w r a f))
   \<and> (base * (1 + weighted_uplift w r a f) \<le> 0 \<longrightarrow> computeValuation w r a f base = 0)"
  by (simp add: computeValuation_def weighted_uplift_def)

text \<open>
  The theorem at the baseline 4,200,000 of the documented program, with an uplift of
  12.5 %, and at a negative baseline, where the floor applies.
\<close>

theorem valuation_formula_witness:
  "computeValuation \<lparr>w_relationship = 0.1, w_authenticity = 0.1, w_fairness = 0.05\<rparr>
      0.5 0.5 0.5 4200000 = 4725000
   \<and> computeValuation \<lparr>w_relationship = 0.1, w_authenticity = 0.1, w_fairness = 0.05\<rparr>
      0.5 0.5 0.5 (- 100) = 0"
  using valuation_formula [of "\<lparr>w_relationship = 0.1, w_authenticity = 0.1, w_fairness = 0.05\<rparr>"
      "0.5" "0.5" "0.5" 4200000]
    valuation_formula [of "\<lparr>w_relationship = 0.1, w_authenticity = 0.1, w_fairness = 0.05\<rparr>"
      "0.5" "0.5" "0.5" "- 100"]
  by (simp add: weighted_uplift_def)

end
